theory Spec2Isabelle
  imports Complex_Main "HOL-Library.Multiset"
begin

section \<open>Data model of the evaluator\<close>

text \<open>
  The embedding follows \<^verbatim>\<open>bipartite_embeddings/evaluator.py\<close> and the enumerations of
  \<^verbatim>\<open>constants.py\<close>. Python floats and numpy numbers are idealised as \<^typ>\<open>real\<close>; a
  numpy 2-D array is a list of rows. Exceptions are values of the type \<open>error\<close>, and
  every operation of the evaluator returns its result together with the evaluator
  after the call, so that the state an exception leaves behind is part of the model.
\<close>

datatype SampleType = TRAIN | TEST

datatype EdgeOperator = CONCAT | HADAMARD | AVERAGE

datatype SimilarityMeasure = COSINE | HAMMING | DOT_PRODUCT

datatype error = ValueError string | IndexError | AttributeError

type_synonym ndarray = "real list list"

text \<open>
  An undirected graph (\<^verbatim>\<open>nx.Graph\<close>) with integer node identifiers. \<^verbatim>\<open>has_edge\<close> of an
  undirected graph does not depend on the order of its arguments.
\<close>

record graph =
  nodes :: "int list"
  edges :: "(int \<times> int) list"

definition has_edge :: "graph \<Rightarrow> int \<Rightarrow> int \<Rightarrow> bool" where
  "has_edge g u v = (List.member (edges g) (u, v) \<or> List.member (edges g) (v, u))"

text \<open>
  The sample bundle returned by \<^verbatim>\<open>get_train_test_samples\<close>: a \<^verbatim>\<open>DotDict\<close>, a dictionary
  whose entries are read as attributes. The evaluator observes a bundle in two ways: by
  Python's truth test in the guard \<^verbatim>\<open>not self._samples\<close>, and by reading six attributes.
  The field \<open>nonempty\<close> is the result of the truth test, which for a dictionary is false
  when it has no entry and true otherwise; the other six fields are the values that the
  attribute reads return.
\<close>

record samples_bundle =
  nonempty :: bool
  G_train :: graph
  G_test :: graph
  edge_ids_train :: "(int \<times> int) list"
  edge_ids_test :: "(int \<times> int) list"
  edge_labels_train :: "nat list"
  edge_labels_test :: "nat list"

text \<open>
  The calls the evaluator makes to its collaborators, in the order it makes them.
\<close>

datatype event =
    SplitterCall graph
  | ModelFit graph
  | ModelGetEmbedding
  | ClassifierFit
  | ClassifierPredictProba
  | RocAucScore

text \<open>
  The collaborators: the sample splitter, the two operations of the
  \<^verbatim>\<open>EmbeddingModel\<close> protocol on a model state \<open>'m\<close>, the operations of the
  \<^verbatim>\<open>ClassifierEstimator\<close> protocol that the evaluator calls on a classifier state
  \<open>'c\<close>, and sklearn's \<^verbatim>\<open>roc_auc_score\<close>. \<open>clf_bool\<close> is Python's truth test on a classifier
  object, which the guard \<^verbatim>\<open>not self.classifier\<close> applies: the result of the \<^verbatim>\<open>__bool__\<close> or
  \<^verbatim>\<open>__len__\<close> of its class when it defines one, and true otherwise.
\<close>

record ('m, 'c) collaborators =
  get_train_test_samples :: "graph \<Rightarrow> samples_bundle"
  em_fit :: "'m \<Rightarrow> graph \<Rightarrow> 'm"
  em_get_embedding :: "'m \<Rightarrow> ndarray"
  clf_bool :: "'c \<Rightarrow> bool"
  clf_fit :: "'c \<Rightarrow> real list list \<Rightarrow> nat list \<Rightarrow> 'c"
  clf_predict_proba :: "'c \<Rightarrow> real list list \<Rightarrow> real list list"
  roc_auc_score :: "nat list \<Rightarrow> real list \<Rightarrow> error + real"

text \<open>
  The fields of \<^verbatim>\<open>Evaluator\<close>; \<open>p_samples\<close> is the private \<^verbatim>\<open>_samples\<close>, and \<open>trace\<close>
  records the collaborator calls made so far.
\<close>

record ('m, 'c) Evaluator =
  graph :: graph
  embedding_model :: 'm
  classifier :: "'c option"
  embedding_operator :: "EdgeOperator option"
  p_samples :: "samples_bundle option"
  trace :: "event list"

definition init :: "graph \<Rightarrow> 'm \<Rightarrow> 'c option \<Rightarrow> EdgeOperator option \<Rightarrow> ('m, 'c) Evaluator" where
  "init g m c operator =
     \<lparr>graph = g, embedding_model = m, classifier = c, embedding_operator = operator,
      p_samples = None, trace = []\<rparr>"

section \<open>numpy operations\<close>

text \<open>
  Indexing with an integer: a negative index counts from the end, an index out of
  range raises \<^verbatim>\<open>IndexError\<close>.
\<close>

definition getitem :: "'a list \<Rightarrow> int \<Rightarrow> error + 'a" where
  "getitem xs i =
     (let n = int (length xs); j = (if i < 0 then i + n else i)
      in if 0 \<le> j \<and> j < n then Inr (xs ! nat j) else Inl IndexError)"

text \<open>
  The position that an integer index in range selects: indices from \<open>- n\<close> to \<open>n - 1\<close> are
  in range for \<open>n\<close> elements.
\<close>

definition np_index :: "'a list \<Rightarrow> int \<Rightarrow> nat" where
  "np_index xs i = nat (if i < 0 then i + int (length xs) else i)"

definition in_range :: "'a list \<Rightarrow> int \<Rightarrow> bool" where
  "in_range xs i = (- int (length xs) \<le> i \<and> i < int (length xs))"

text \<open>
  A list comprehension whose element expression may raise: the first exception ends it.
\<close>

fun comprehension :: "('a \<Rightarrow> error + 'b) \<Rightarrow> 'a list \<Rightarrow> error + 'b list" where
  "comprehension f [] = Inr []"
| "comprehension f (x # xs) =
     (case f x of
        Inl e \<Rightarrow> Inl e
      | Inr y \<Rightarrow> (case comprehension f xs of Inl e \<Rightarrow> Inl e | Inr ys \<Rightarrow> Inr (y # ys)))"

text \<open>
  The three edge operators on two rows of one embedding matrix (rows of equal length):
  \<^verbatim>\<open>np.concatenate((a, b))\<close>, \<^verbatim>\<open>np.multiply(a, b)\<close> and \<^verbatim>\<open>(a + b) / 2\<close>.
\<close>

definition np_concatenate :: "real list \<Rightarrow> real list \<Rightarrow> real list" where
  "np_concatenate a b = a @ b"

definition np_multiply :: "real list \<Rightarrow> real list \<Rightarrow> real list" where
  "np_multiply a b = map (\<lambda>(x, y). x * y) (zip a b)"

definition np_average :: "real list \<Rightarrow> real list \<Rightarrow> real list" where
  "np_average a b = map (\<lambda>(x, y). (x + y) / 2) (zip a b)"

definition edge_vector ::
  "(real list \<Rightarrow> real list \<Rightarrow> real list) \<Rightarrow> ndarray \<Rightarrow> int \<times> int \<Rightarrow> error + real list" where
  "edge_vector f node_embeddings edge =
     (case getitem node_embeddings (fst edge) of
        Inl e \<Rightarrow> Inl e
      | Inr a \<Rightarrow> (case getitem node_embeddings (snd edge) of
                   Inl e \<Rightarrow> Inl e
                 | Inr b \<Rightarrow> Inr (f a b)))"

section \<open>The evaluator\<close>

definition get_samples ::
  "('m, 'c) collaborators \<Rightarrow> ('m, 'c) Evaluator \<Rightarrow> samples_bundle \<times> ('m, 'c) Evaluator" where
  "get_samples K s =
     (get_train_test_samples K (graph s), s\<lparr>trace := trace s @ [SplitterCall (graph s)]\<rparr>)"

text \<open>
  The \<^verbatim>\<open>samples\<close> property. Its guard \<^verbatim>\<open>not self._samples\<close> is a truth test: it holds for
  \<^verbatim>\<open>None\<close> and for a stored bundle that is false in the truth test, and in both cases the
  splitter is called and its result stored.
\<close>

definition not_samples :: "('m, 'c) Evaluator \<Rightarrow> bool" where
  "not_samples s = (case p_samples s of None \<Rightarrow> True | Some b \<Rightarrow> \<not> nonempty b)"

definition samples ::
  "('m, 'c) collaborators \<Rightarrow> ('m, 'c) Evaluator \<Rightarrow> samples_bundle \<times> ('m, 'c) Evaluator" where
  "samples K s =
     (case p_samples s of
        None \<Rightarrow> (let (b, s1) = get_samples K s in (b, s1\<lparr>p_samples := Some b\<rparr>))
      | Some b \<Rightarrow>
          if nonempty b then (b, s)
          else (let (b', s1) = get_samples K s in (b', s1\<lparr>p_samples := Some b'\<rparr>)))"

definition model_fit ::
  "('m, 'c) collaborators \<Rightarrow> graph \<Rightarrow> ('m, 'c) Evaluator \<Rightarrow> ('m, 'c) Evaluator" where
  "model_fit K g s =
     s\<lparr>embedding_model := em_fit K (embedding_model s) g, trace := trace s @ [ModelFit g]\<rparr>"

definition model_get_embedding ::
  "('m, 'c) collaborators \<Rightarrow> ('m, 'c) Evaluator \<Rightarrow> ndarray \<times> ('m, 'c) Evaluator" where
  "model_get_embedding K s =
     (em_get_embedding K (embedding_model s), s\<lparr>trace := trace s @ [ModelGetEmbedding]\<rparr>)"

definition get_node_embeddings ::
  "('m, 'c) collaborators \<Rightarrow> SampleType option \<Rightarrow> ('m, 'c) Evaluator
     \<Rightarrow> ndarray \<times> ('m, 'c) Evaluator" where
  "get_node_embeddings K sample_type s =
     (if sample_type = Some TRAIN then
        (let (b, s1) = samples K s in model_get_embedding K (model_fit K (G_train b) s1))
      else if sample_type = Some TEST then
        (let (b, s1) = samples K s in model_get_embedding K (model_fit K (G_test b) s1))
      else model_get_embedding K (model_fit K (graph s) s))"

definition train_node_embeddings ::
  "('m, 'c) collaborators \<Rightarrow> ('m, 'c) Evaluator \<Rightarrow> ndarray \<times> ('m, 'c) Evaluator" where
  "train_node_embeddings K s = get_node_embeddings K (Some TRAIN) s"

definition test_node_embeddings ::
  "('m, 'c) collaborators \<Rightarrow> ('m, 'c) Evaluator \<Rightarrow> ndarray \<times> ('m, 'c) Evaluator" where
  "test_node_embeddings K s = get_node_embeddings K (Some TEST) s"

text \<open>
  The graph on which \<^verbatim>\<open>get_node_embeddings\<close> fits the embedding model: the train
  subgraph, the test subgraph, or the full graph when no sample type is given.
\<close>

definition fitted_graph ::
  "('m, 'c) collaborators \<Rightarrow> SampleType option \<Rightarrow> ('m, 'c) Evaluator \<Rightarrow> graph" where
  "fitted_graph K sample_type s =
     (if sample_type = Some TRAIN then G_train (fst (samples K s))
      else if sample_type = Some TEST then G_test (fst (samples K s))
      else graph s)"

text \<open>
  The text of a configured operator in a formatted message: \<^verbatim>\<open>str\<close> of \<^verbatim>\<open>None\<close> or of
  an enumeration member.
\<close>

fun str_operator :: "EdgeOperator option \<Rightarrow> string" where
  "str_operator None = ''None''"
| "str_operator (Some CONCAT) = ''EdgeOperator.CONCAT''"
| "str_operator (Some HADAMARD) = ''EdgeOperator.HADAMARD''"
| "str_operator (Some AVERAGE) = ''EdgeOperator.AVERAGE''"

definition unknown_operator :: "EdgeOperator option \<Rightarrow> error" where
  "unknown_operator operator = ValueError (''Unknown edge operator: '' @ str_operator operator)"

definition sample_edge_ids :: "SampleType \<Rightarrow> samples_bundle \<Rightarrow> (int \<times> int) list" where
  "sample_edge_ids sample_type b =
     (if sample_type = TRAIN then edge_ids_train b else edge_ids_test b)"

definition get_edge_embeddings ::
  "('m, 'c) collaborators \<Rightarrow> SampleType \<Rightarrow> ('m, 'c) Evaluator
     \<Rightarrow> (error + real list list) \<times> ('m, 'c) Evaluator" where
  "get_edge_embeddings K sample_type s =
     (let (node_embeddings, s1) =
            (if sample_type = TRAIN then train_node_embeddings K s
             else test_node_embeddings K s);
          (b, s2) = samples K s1;
          ids = (if sample_type = TRAIN then edge_ids_train b else edge_ids_test b)
      in if embedding_operator s2 = Some CONCAT then
           (comprehension (edge_vector np_concatenate node_embeddings) ids, s2)
         else if embedding_operator s2 = Some HADAMARD then
           (comprehension (edge_vector np_multiply node_embeddings) ids, s2)
         else if embedding_operator s2 = Some AVERAGE then
           (comprehension (edge_vector np_average node_embeddings) ids, s2)
         else (Inl (unknown_operator (embedding_operator s2)), s2))"







section \<open>Similarity matrices and the top-100 ranking\<close>

definition dot :: "real list \<Rightarrow> real list \<Rightarrow> real" where
  "dot x y = sum_list (map (\<lambda>(a, b). a * b) (zip x y))"

text \<open>
  \<^verbatim>\<open>(node_embeddings[:, None, :] == node_embeddings).sum(2)\<close>: for two rows, the number of
  positions at which they agree.
\<close>

definition agreement :: "real list \<Rightarrow> real list \<Rightarrow> real" where
  "agreement x y = real (length (filter (\<lambda>(a, b). a = b) (zip x y)))"

definition pairwise :: "(real list \<Rightarrow> real list \<Rightarrow> real) \<Rightarrow> ndarray \<Rightarrow> ndarray" where
  "pairwise f E = map (\<lambda>x. map (\<lambda>y. f x y) E) E"

text \<open>
  sklearn's \<^verbatim>\<open>cosine_similarity(X)\<close>: every row is divided by its Euclidean norm (a row of
  norm zero is left as it is), then the rows are multiplied pairwise.
\<close>

definition l2_normalize :: "real list \<Rightarrow> real list" where
  "l2_normalize x =
     (let nrm = sqrt (sum_list (map (\<lambda>a. a * a) x))
      in if nrm = 0 then x else map (\<lambda>a. a / nrm) x)"

definition cosine_similarity :: "ndarray \<Rightarrow> ndarray" where
  "cosine_similarity E = pairwise dot (map l2_normalize E)"

fun str_measure :: "SimilarityMeasure \<Rightarrow> string" where
  "str_measure COSINE = ''SimilarityMeasure.COSINE''"
| "str_measure HAMMING = ''SimilarityMeasure.HAMMING''"
| "str_measure DOT_PRODUCT = ''SimilarityMeasure.DOT_PRODUCT''"

definition similarity_matrix :: "SimilarityMeasure \<Rightarrow> ndarray \<Rightarrow> error + ndarray" where
  "similarity_matrix similarity_measure node_embeddings =
     (if similarity_measure = COSINE then Inr (cosine_similarity node_embeddings)
      else if similarity_measure = HAMMING then Inr (pairwise agreement node_embeddings)
      else if similarity_measure = DOT_PRODUCT then Inr (pairwise dot node_embeddings)
      else Inl (ValueError (''Unknown similarity measure: '' @ str_measure similarity_measure)))"

text \<open>
  \<^verbatim>\<open>np.tril(m, k)\<close>: the entry in row \<open>i\<close> and column \<open>j\<close> is kept when \<open>j \<le> i + k\<close> and is
  zero otherwise.
\<close>

definition tril_row :: "int \<Rightarrow> nat \<Rightarrow> real list \<Rightarrow> real list" where
  "tril_row k i row = map (\<lambda>j. if int j \<le> int i + k then row ! j else 0) [0..<length row]"

definition tril :: "ndarray \<Rightarrow> int \<Rightarrow> ndarray" where
  "tril m k = map (\<lambda>i. tril_row k i (m ! i)) [0..<length m]"

definition ravel :: "ndarray \<Rightarrow> real list" where
  "ravel m = concat m"

definition shape :: "ndarray \<Rightarrow> nat \<times> nat" where
  "shape m = (length m, case m of [] \<Rightarrow> 0 | row # _ \<Rightarrow> length row)"

text \<open>
  \<^verbatim>\<open>np.argsort\<close>: the indices that sort the array in ascending order. numpy does not
  specify the order of equal values; here equal values keep the order of their indices.
\<close>

definition argsort :: "real list \<Rightarrow> nat list" where
  "argsort a = map snd (sort_key fst (zip a [0..<length a]))"

text \<open>
  \<^verbatim>\<open>np.argpartition(a, kth)\<close>: a \<^verbatim>\<open>ValueError\<close> unless \<open>- n \<le> kth < n\<close> for an array of \<open>n\<close>
  values; otherwise a permutation of the indices with the value at position \<open>kth\<close>
  (counted from the end when negative) in its sorted place, no larger value before it
  and no smaller value after it. The order inside the two parts is not specified by
  numpy; the fully sorted permutation is one such result.
\<close>

definition argpartition :: "real list \<Rightarrow> int \<Rightarrow> error + nat list" where
  "argpartition a kth =
     (let n = int (length a)
      in if kth < - n \<or> n \<le> kth then Inl (ValueError ''kth out of bounds'')
         else Inr (argsort a))"

text \<open>\<^verbatim>\<open>a[-k:]\<close>, the last \<open>k\<close> elements, and \<^verbatim>\<open>a[idx]\<close> for an array \<open>idx\<close> of indices.\<close>

definition last_k :: "nat \<Rightarrow> 'a list \<Rightarrow> 'a list" where
  "last_k k a = drop (length a - k) a"

definition take_indices :: "'a list \<Rightarrow> nat list \<Rightarrow> 'a list" where
  "take_indices a idx = map (\<lambda>i. a ! i) idx"

text \<open>
  \<^verbatim>\<open>list(zip(*np.unravel_index(indices, shape)))\<close> for a 2-D shape: flat index \<open>k\<close> is row
  \<open>k div ncols\<close>, column \<open>k mod ncols\<close>.
\<close>

definition unravel_index :: "nat list \<Rightarrow> nat \<times> nat \<Rightarrow> (nat \<times> nat) list" where
  "unravel_index indices shp = map (\<lambda>k. (k div snd shp, k mod snd shp)) indices"

definition top100_indices :: "ndarray \<Rightarrow> error + (nat \<times> nat) list" where
  "top100_indices similarities =
     (case argpartition (ravel similarities) (- 100) of
        Inl e \<Rightarrow> Inl e
      | Inr p \<Rightarrow>
          (let indices = last_k 100 p;
               indices' = rev (take_indices indices
                                 (argsort (take_indices (ravel similarities) indices)))
           in Inr (unravel_index indices' (shape similarities))))"

text \<open>
  The ranked pairs of \<^verbatim>\<open>get_precision_at_100\<close> for an embedding matrix: the similarity
  matrix, masked by \<^verbatim>\<open>np.tril(similarities, k=-1)\<close>, then ranked.
\<close>

definition ranked_pairs :: "SimilarityMeasure \<Rightarrow> ndarray \<Rightarrow> error + (nat \<times> nat) list" where
  "ranked_pairs similarity_measure node_embeddings =
     (case similarity_matrix similarity_measure node_embeddings of
        Inl e \<Rightarrow> Inl e
      | Inr similarities \<Rightarrow> top100_indices (tril similarities (- 1)))"

text \<open>The loop that counts the ranked pairs joined by an edge of the graph.\<close>

fun count_tp :: "graph \<Rightarrow> (nat \<times> nat) list \<Rightarrow> nat \<Rightarrow> nat" where
  "count_tp g [] tp = tp"
| "count_tp g (idx # rest) tp =
     count_tp g rest (if has_edge g (int (fst idx)) (int (snd idx)) then tp + 1 else tp)"

definition get_precision_at_100 ::
  "('m, 'c) collaborators \<Rightarrow> SimilarityMeasure \<Rightarrow> ('m, 'c) Evaluator
     \<Rightarrow> (error + real) \<times> ('m, 'c) Evaluator" where
  "get_precision_at_100 K similarity_measure s =
     (let (node_embeddings, s1) = get_node_embeddings K None s
      in case ranked_pairs similarity_measure node_embeddings of
           Inl e \<Rightarrow> (Inl e, s1)
         | Inr top100 \<Rightarrow> (Inr (real (count_tp (graph s1) top100 0) / 100), s1))"

section \<open>A stub configuration\<close>

text \<open>
  A graph of ten nodes, a stub embedding model whose \<^verbatim>\<open>fit\<close> stores a fixed matrix of ten
  rows and four columns (its state is the matrix it returns), a stub splitter, a stub
  classifier that counts its fits and predicts the probability one half, and a stub
  score. Two variants: a splitter that returns a bundle with no entry, and a classifier
  whose length is the number of its fits, so that it is false in the truth test until
  it has been fitted.
\<close>

definition stub_embedding :: ndarray where
  "stub_embedding =
     [[1, 0, 1, 0], [1, 0, 1, 0], [0, 1, 0, 1], [1, 1, 0, 0], [0, 0, 1, 1],
      [1, 0, 0, 1], [0, 1, 1, 0], [1, 1, 1, 1], [0, 0, 0, 0], [1, 0, 1, 1]]"

definition stub_graph :: graph where
  "stub_graph = \<lparr>nodes = [0, 1, 2, 3, 4, 5, 6, 7, 8, 9], edges = [(0, 1), (2, 3), (4, 5), (1, 2)]\<rparr>"

definition stub_bundle :: samples_bundle where
  "stub_bundle =
     \<lparr>nonempty = True,
      G_train = \<lparr>nodes = [0, 1, 2, 3, 4, 5, 6, 7, 8, 9], edges = [(0, 1), (2, 3)]\<rparr>,
      G_test = \<lparr>nodes = [0, 1, 2, 3, 4, 5, 6, 7, 8, 9], edges = [(4, 5), (1, 2)]\<rparr>,
      edge_ids_train = [(0, 1), (2, 3), (0, 2), (1, 3)],
      edge_ids_test = [(4, 5), (1, 2), (4, 6), (5, 7)],
      edge_labels_train = [1, 1, 0, 0],
      edge_labels_test = [1, 1, 0, 0]\<rparr>"

definition stub_collaborators :: "(ndarray, nat) collaborators" where
  "stub_collaborators =
     \<lparr>get_train_test_samples = (\<lambda>g. stub_bundle),
      em_fit = (\<lambda>m g. stub_embedding),
      em_get_embedding = (\<lambda>m. m),
      clf_bool = (\<lambda>c. True),
      clf_fit = (\<lambda>c x y. c + 1),
      clf_predict_proba = (\<lambda>c x. map (\<lambda>v. [1 / 2, 1 / 2]) x),
      roc_auc_score = (\<lambda>y p. Inr (1 / 2))\<rparr>"

definition stub_evaluator :: "EdgeOperator option \<Rightarrow> (ndarray, nat) Evaluator" where
  "stub_evaluator operator = init stub_graph [] (Some 0) operator"

definition empty_bundle :: samples_bundle where
  "empty_bundle =
     \<lparr>nonempty = False,
      G_train = \<lparr>nodes = [], edges = []\<rparr>,
      G_test = \<lparr>nodes = [], edges = []\<rparr>,
      edge_ids_train = [],
      edge_ids_test = [],
      edge_labels_train = [],
      edge_labels_test = []\<rparr>"

definition empty_collaborators :: "(ndarray, nat) collaborators" where
  "empty_collaborators = stub_collaborators\<lparr>get_train_test_samples := (\<lambda>g. empty_bundle)\<rparr>"


section \<open>Lemmas on the numpy operations\<close>

lemma length_argsort: "length (argsort a) = length a"
  by (simp add: argsort_def)

lemma map_snd_zip_upt: "map snd (zip a [0..<length a]) = [0..<length a]"
  by (rule map_snd_zip) simp

lemma mset_argsort: "mset (argsort a) = mset [0..<length a]"
proof -
  have "mset (argsort a) = mset (map snd (zip a [0..<length a]))"
    by (simp only: argsort_def mset_map mset_sort)
  then show ?thesis
    by (simp only: map_snd_zip_upt)
qed

lemma mset_take_indices:
  assumes "mset p = mset [0..<length a]"
  shows "mset (take_indices a p) = mset a"
proof -
  have "mset (take_indices a p) = image_mset ((!) a) (mset p)"
    by (simp only: take_indices_def mset_map)
  also have "\<dots> = mset (map ((!) a) [0..<length a])"
    by (simp only: assms mset_map)
  also have "\<dots> = mset a"
    by (simp only: map_nth)
  finally show ?thesis .
qed

lemma length_take_indices: "length (take_indices a p) = length p"
  by (simp add: take_indices_def)

lemma length_last_k: "k \<le> length a \<Longrightarrow> length (last_k k a) = k"
  by (simp add: last_k_def)

lemma argpartition_100:
  "argpartition a (- 100) =
     (if 100 \<le> length a then Inr (argsort a) else Inl (ValueError ''kth out of bounds''))"
  by (auto simp add: argpartition_def Let_def)

lemma top100_indices_length:
  assumes "top100_indices S = Inr ps"
  shows "length ps = 100"
  using assms
  by (auto simp add: top100_indices_def argpartition_100 Let_def unravel_index_def
      length_take_indices length_argsort length_last_k split: if_splits)


section \<open>The state after an operation\<close>

lemma samples_cached: "p_samples s = Some b \<Longrightarrow> nonempty b \<Longrightarrow> samples K s = (b, s)"
  by (simp add: samples_def)

lemma samples_computed:
  "not_samples s \<Longrightarrow>
   samples K s =
     (get_train_test_samples K (graph s),
      s\<lparr>p_samples := Some (get_train_test_samples K (graph s)),
        trace := trace s @ [SplitterCall (graph s)]\<rparr>)"
  by (simp add: samples_def get_samples_def not_samples_def split: option.splits)

lemma samples_kept:
  "\<not> not_samples s \<Longrightarrow> \<exists>b. p_samples s = Some b \<and> nonempty b \<and> samples K s = (b, s)"
  by (cases "p_samples s") (auto simp add: samples_def not_samples_def)

lemma samples_fields:
  "graph (snd (samples K s)) = graph s"
  "embedding_model (snd (samples K s)) = embedding_model s"
  "classifier (snd (samples K s)) = classifier s"
  "embedding_operator (snd (samples K s)) = embedding_operator s"
  "p_samples (snd (samples K s)) = Some (fst (samples K s))"
  by (simp_all add: samples_def get_samples_def split: option.splits)

lemma samples_trace:
  "trace (snd (samples K s)) =
     trace s @ (if not_samples s then [SplitterCall (graph s)] else [])"
  by (simp add: samples_def get_samples_def not_samples_def split: option.splits)

lemma samples_false:
  "\<not> nonempty (fst (samples K s)) \<Longrightarrow> fst (samples K s) = get_train_test_samples K (graph s)"
  by (auto simp add: samples_def get_samples_def split: option.splits if_splits)

lemma not_samples_stored:
  "p_samples s' = Some (fst (samples K s)) \<Longrightarrow> not_samples s' = (\<not> nonempty (fst (samples K s)))"
  by (simp add: not_samples_def)

lemma samples_again:
  assumes "p_samples s' = Some (fst (samples K s))" and "graph s' = graph s"
  shows "fst (samples K s') = fst (samples K s)"
proof (cases "nonempty (fst (samples K s))")
  case True
  with assms show ?thesis by (simp add: samples_cached)
next
  case False
  then have "not_samples s'"
    using assms by (simp add: not_samples_stored)
  then have "fst (samples K s') = get_train_test_samples K (graph s)"
    using assms by (simp add: samples_computed)
  with False show ?thesis
    by (simp add: samples_false)
qed

lemma samples_twice:
  "nonempty (fst (samples K s)) \<Longrightarrow>
   samples K (snd (samples K s)) = (fst (samples K s), snd (samples K s))"
  by (rule samples_cached) (simp_all add: samples_fields)

lemma get_node_embeddings_eq:
  "get_node_embeddings K sample_type s =
     model_get_embedding K
       (model_fit K (fitted_graph K sample_type s)
          (if sample_type = None then s else snd (samples K s)))"
proof (cases sample_type)
  case None
  then show ?thesis by (simp add: get_node_embeddings_def fitted_graph_def)
next
  case (Some st)
  then show ?thesis
    by (cases st; simp add: get_node_embeddings_def fitted_graph_def case_prod_unfold Let_def)
qed

lemma get_node_embeddings_fields:
  "fst (get_node_embeddings K sample_type s) =
     em_get_embedding K (em_fit K (embedding_model s) (fitted_graph K sample_type s))"
  "embedding_model (snd (get_node_embeddings K sample_type s)) =
     em_fit K (embedding_model s) (fitted_graph K sample_type s)"
  "graph (snd (get_node_embeddings K sample_type s)) = graph s"
  "classifier (snd (get_node_embeddings K sample_type s)) = classifier s"
  "embedding_operator (snd (get_node_embeddings K sample_type s)) = embedding_operator s"
  "p_samples (snd (get_node_embeddings K sample_type s)) =
     (if sample_type = None then p_samples s else Some (fst (samples K s)))"
  "trace (snd (get_node_embeddings K sample_type s)) =
     trace (if sample_type = None then s else snd (samples K s)) @
       [ModelFit (fitted_graph K sample_type s), ModelGetEmbedding]"
  by (simp_all add: get_node_embeddings_eq model_get_embedding_def model_fit_def samples_fields)

section \<open>The sample cache\<close>

lemma samples_repeat:
  "nonempty (fst (samples K s)) \<Longrightarrow>
   ((\<lambda>t. snd (samples K t)) ^^ n) (snd (samples K s)) = snd (samples K s)"
  by (induction n) (simp_all add: samples_twice)

lemma samples_recomputed:
  assumes "\<not> nonempty (fst (samples K s))"
  shows "trace (snd (samples K (snd (samples K s)))) =
           trace (snd (samples K s)) @ [SplitterCall (graph s)]"
proof -
  have "not_samples (snd (samples K s))"
    using assms by (simp add: not_samples_stored samples_fields)
  then show ?thesis
    by (simp add: samples_trace samples_fields)
qed

text \<open>
  Claim C5. An access to \<^verbatim>\<open>samples\<close> whose guard holds (nothing stored, as on a new
  evaluator, or a stored bundle that is false in the truth test) calls the splitter once
  on the graph and stores its result; an access whose guard fails returns the stored
  bundle and leaves the evaluator, so also its trace of collaborator calls, unchanged.
  Hence when the bundle of an access is true in the truth test, the next access, and any
  later one, returns that bundle without a call; when it is false, the next access
  calls the splitter again.
\<close>

theorem samples_truth_test_cache:
  "(not_samples s \<longrightarrow>
      samples K s =
        (get_train_test_samples K (graph s),
         s\<lparr>p_samples := Some (get_train_test_samples K (graph s)),
           trace := trace s @ [SplitterCall (graph s)]\<rparr>))
   \<and> (\<not> not_samples s \<longrightarrow> (\<exists>b. p_samples s = Some b \<and> nonempty b \<and> samples K s = (b, s)))
   \<and> not_samples (init g m c operator)
   \<and> (nonempty (fst (samples K s)) \<longrightarrow>
        samples K (snd (samples K s)) = (fst (samples K s), snd (samples K s))
        \<and> samples K (((\<lambda>t. snd (samples K t)) ^^ n) (snd (samples K s))) =
            (fst (samples K s), snd (samples K s)))
   \<and> (\<not> nonempty (fst (samples K s)) \<longrightarrow>
        trace (snd (samples K (snd (samples K s)))) =
          trace (snd (samples K s)) @ [SplitterCall (graph s)])"
proof -
  have "not_samples (init g m c operator)"
    by (simp add: not_samples_def init_def)
  then show ?thesis
    using samples_kept [of s K]
    by (simp add: samples_computed samples_repeat samples_twice samples_recomputed)
qed

theorem samples_truth_test_cache_witness:
  "not_samples (stub_evaluator None)
   \<and> samples stub_collaborators (stub_evaluator None) =
       (stub_bundle,
        (stub_evaluator None)\<lparr>p_samples := Some stub_bundle, trace := [SplitterCall stub_graph]\<rparr>)
   \<and> nonempty (fst (samples stub_collaborators (stub_evaluator None)))
   \<and> samples stub_collaborators (snd (samples stub_collaborators (stub_evaluator None))) =
       (stub_bundle, snd (samples stub_collaborators (stub_evaluator None)))
   \<and> trace (snd (samples stub_collaborators
                (snd (samples stub_collaborators (stub_evaluator None))))) =
       [SplitterCall stub_graph]
   \<and> \<not> nonempty (fst (samples empty_collaborators (stub_evaluator None)))"
proof -
  let ?s = "stub_evaluator None"
  have guard: "not_samples ?s"
    by (simp add: not_samples_def stub_evaluator_def init_def)
  have g: "graph ?s = stub_graph" and t: "trace ?s = []"
    by (simp_all add: stub_evaluator_def init_def)
  have split: "get_train_test_samples stub_collaborators stub_graph = stub_bundle"
    by (simp add: stub_collaborators_def)
  note inst = samples_truth_test_cache [of ?s stub_collaborators stub_graph "[]" "Some 0" None 0]
  from inst guard have
    "samples stub_collaborators ?s =
       (get_train_test_samples stub_collaborators (graph ?s),
        ?s\<lparr>p_samples := Some (get_train_test_samples stub_collaborators (graph ?s)),
           trace := trace ?s @ [SplitterCall (graph ?s)]\<rparr>)"
    by blast
  then have first:
    "samples stub_collaborators ?s =
       (stub_bundle, ?s\<lparr>p_samples := Some stub_bundle, trace := [SplitterCall stub_graph]\<rparr>)"
    by (simp add: g t split)
  have true: "nonempty (fst (samples stub_collaborators ?s))"
    by (simp add: first stub_bundle_def)
  from inst true have second:
    "samples stub_collaborators (snd (samples stub_collaborators ?s)) =
       (fst (samples stub_collaborators ?s), snd (samples stub_collaborators ?s))"
    by blast
  have false: "\<not> nonempty (fst (samples empty_collaborators ?s))"
    using guard
    by (simp add: samples_computed empty_collaborators_def empty_bundle_def)
  show ?thesis
    using guard first true second false by simp
qed

theorem samples_recomputed_counterexample:
  "p_samples (snd (samples empty_collaborators (stub_evaluator None))) = Some empty_bundle
   \<and> trace (snd (samples empty_collaborators (stub_evaluator None))) = [SplitterCall stub_graph]
   \<and> trace (snd (samples empty_collaborators
                  (snd (samples empty_collaborators (stub_evaluator None))))) =
       [SplitterCall stub_graph, SplitterCall stub_graph]"
proof -
  let ?s = "stub_evaluator None"
  have guard: "not_samples ?s"
    by (simp add: not_samples_def stub_evaluator_def init_def)
  have first: "samples empty_collaborators ?s =
       (empty_bundle, ?s\<lparr>p_samples := Some empty_bundle, trace := [SplitterCall stub_graph]\<rparr>)"
    using guard
    by (simp add: samples_computed) (simp add: empty_collaborators_def stub_evaluator_def init_def)
  have "\<not> nonempty (fst (samples empty_collaborators ?s))"
    by (simp add: first empty_bundle_def)
  then have "trace (snd (samples empty_collaborators (snd (samples empty_collaborators ?s)))) =
       trace (snd (samples empty_collaborators ?s)) @ [SplitterCall (graph ?s)]"
    by (rule samples_recomputed)
  then show ?thesis
    by (simp add: first) (simp add: stub_evaluator_def init_def)
qed

section \<open>The edge operators\<close>

lemma np_multiply_commute: "np_multiply a b = np_multiply b a"
proof (induction a arbitrary: b)
  case Nil
  then show ?case by (simp add: np_multiply_def)
next
  case (Cons x a)
  then show ?case by (cases b) (simp_all add: np_multiply_def)
qed

lemma np_average_commute: "np_average a b = np_average b a"
proof (induction a arbitrary: b)
  case Nil
  then show ?case by (simp add: np_average_def)
next
  case (Cons x a)
  then show ?case by (cases b) (simp_all add: np_average_def add.commute)
qed

lemma getitem_error: "getitem xs i = Inl e \<Longrightarrow> e = IndexError"
  by (auto simp add: getitem_def Let_def split: if_splits)

lemma edge_vector_swap:
  assumes "\<And>a b. f a b = f b a"
  shows "edge_vector f E (u, v) = edge_vector f E (v, u)"
  using assms
  by (auto simp add: edge_vector_def split: sum.splits dest!: getitem_error)

text \<open>
  Claim C9. The element-wise product and the element-wise mean do not depend on the
  order of the two node vectors, on the vectors and on the edges of an embedding matrix
  alike. Concatenation does: some pair of vectors of equal length gives two different
  concatenations, and for vectors of equal length the two concatenations agree exactly
  when the vectors are equal.
\<close>

theorem edge_operators_commutativity:
  "np_multiply a b = np_multiply b a
   \<and> np_average a b = np_average b a
   \<and> edge_vector np_multiply E (u, v) = edge_vector np_multiply E (v, u)
   \<and> edge_vector np_average E (u, v) = edge_vector np_average E (v, u)
   \<and> (\<exists>x y. length x = length y \<and> np_concatenate x y \<noteq> np_concatenate y x)
   \<and> (length a = length b \<longrightarrow> (np_concatenate a b = np_concatenate b a) = (a = b))
   \<and> (getitem E u = Inr a \<and> getitem E v = Inr b \<and> length a = length b \<longrightarrow>
        (edge_vector np_concatenate E (u, v) = edge_vector np_concatenate E (v, u)) = (a = b))"
proof -
  have "np_concatenate [0] [1] \<noteq> np_concatenate [1] [0]"
    by (simp add: np_concatenate_def)
  then have ex: "\<exists>x y. length x = length y \<and> np_concatenate x y \<noteq> np_concatenate y x"
    by (intro exI[of _ "[0]"] exI[of _ "[1]"]) simp
  have cc: "length a = length b \<longrightarrow> (np_concatenate a b = np_concatenate b a) = (a = b)"
    by (auto simp add: np_concatenate_def)
  have ev: "getitem E u = Inr a \<and> getitem E v = Inr b \<and> length a = length b \<longrightarrow>
        (edge_vector np_concatenate E (u, v) = edge_vector np_concatenate E (v, u)) = (a = b)"
    by (auto simp add: edge_vector_def np_concatenate_def)
  show ?thesis
    using ex cc ev
    by (simp add: np_multiply_commute np_average_commute edge_vector_swap)
qed

theorem edge_operators_commutativity_witness:
  "length [1, 2 :: real] = length [3, 4 :: real]
   \<and> np_concatenate [1, 2] [3, 4] \<noteq> np_concatenate [3, 4] [1, 2]
   \<and> getitem stub_embedding 0 = Inr [1, 0, 1, 0]
   \<and> getitem stub_embedding 2 = Inr [0, 1, 0, 1]
   \<and> edge_vector np_concatenate stub_embedding (0, 2) \<noteq>
       edge_vector np_concatenate stub_embedding (2, 0)
   \<and> edge_vector np_multiply stub_embedding (0, 2) =
       edge_vector np_multiply stub_embedding (2, 0)"
  using edge_operators_commutativity [of "[1, 2]" "[3, 4]" stub_embedding 0 2]
    edge_operators_commutativity [of "[1, 0, 1, 0]" "[0, 1, 0, 1]" stub_embedding 0 2]
  by (simp add: getitem_def stub_embedding_def)

section \<open>The edge embeddings\<close>

lemma getitem_in_range: "in_range xs i \<Longrightarrow> getitem xs i = Inr (xs ! np_index xs i)"
  by (auto simp add: getitem_def in_range_def np_index_def Let_def)

lemma comprehension_error:
  "comprehension f xs = Inl e \<Longrightarrow> \<exists>x \<in> set xs. f x = Inl e"
  by (induction xs) (auto split: sum.splits)

lemma comprehension_map:
  "(\<And>x. x \<in> set xs \<Longrightarrow> f x = Inr (g x)) \<Longrightarrow> comprehension f xs = Inr (map g xs)"
  by (induction xs) simp_all

lemma edge_vector_error: "edge_vector f E e = Inl err \<Longrightarrow> err = IndexError"
  by (auto simp add: edge_vector_def split: sum.splits dest: getitem_error)

lemma edge_vector_in_range:
  "in_range E (fst e) \<Longrightarrow> in_range E (snd e) \<Longrightarrow>
   edge_vector f E e = Inr (f (E ! np_index E (fst e)) (E ! np_index E (snd e)))"
  by (simp add: edge_vector_def getitem_in_range)

lemma comprehension_edge_vector_error:
  "comprehension (edge_vector f E) ids \<noteq> Inl (ValueError msg)"
  using comprehension_error edge_vector_error by fastforce

lemma samples_after_node_embeddings:
  "fst (samples K (snd (get_node_embeddings K (Some st) s))) = fst (samples K s)"
  by (rule samples_again) (simp_all add: get_node_embeddings_fields)

lemma samples_after_node_embeddings_fields:
  "embedding_operator (snd (samples K (snd (get_node_embeddings K (Some st) s)))) =
     embedding_operator s"
  "embedding_model (snd (samples K (snd (get_node_embeddings K (Some st) s)))) =
     em_fit K (embedding_model s) (fitted_graph K (Some st) s)"
  "trace (snd (samples K (snd (get_node_embeddings K (Some st) s)))) =
     trace (snd (samples K s)) @ [ModelFit (fitted_graph K (Some st) s), ModelGetEmbedding] @
       (if nonempty (fst (samples K s)) then [] else [SplitterCall (graph s)])"
  by (simp_all add: samples_fields samples_trace get_node_embeddings_fields not_samples_stored)

lemma samples_kept_after_node_embeddings:
  "nonempty (fst (samples K s)) \<Longrightarrow>
   snd (samples K (snd (get_node_embeddings K (Some st) s))) =
     snd (get_node_embeddings K (Some st) s)"
  by (simp add: samples_cached [of _ "fst (samples K s)"] get_node_embeddings_fields)

lemma get_edge_embeddings_eq:
  "get_edge_embeddings K st s =
     ((if embedding_operator s = Some CONCAT then
         comprehension (edge_vector np_concatenate (fst (get_node_embeddings K (Some st) s)))
           (sample_edge_ids st (fst (samples K s)))
       else if embedding_operator s = Some HADAMARD then
         comprehension (edge_vector np_multiply (fst (get_node_embeddings K (Some st) s)))
           (sample_edge_ids st (fst (samples K s)))
       else if embedding_operator s = Some AVERAGE then
         comprehension (edge_vector np_average (fst (get_node_embeddings K (Some st) s)))
           (sample_edge_ids st (fst (samples K s)))
       else Inl (unknown_operator (embedding_operator s))),
      snd (samples K (snd (get_node_embeddings K (Some st) s))))"
  by (cases st)
    (simp_all add: get_edge_embeddings_def train_node_embeddings_def test_node_embeddings_def
      case_prod_unfold Let_def samples_after_node_embeddings
      samples_after_node_embeddings_fields(1) sample_edge_ids_def)

text \<open>
  Claim C6. \<^verbatim>\<open>get_edge_embeddings\<close> raises the error \<^verbatim>\<open>Unknown edge operator: ...\<close>, whose
  message ends with the text of the configured value, exactly when the configured
  operator is none of \<^verbatim>\<open>CONCAT\<close>, \<^verbatim>\<open>HADAMARD\<close>, \<^verbatim>\<open>AVERAGE\<close>. Among the values of the
  field's type that is the unset operator \<^verbatim>\<open>None\<close>, whose text is \<^verbatim>\<open>None\<close>; for each of the
  three operators no \<^verbatim>\<open>ValueError\<close> at all is raised.
\<close>

theorem unknown_operator_error:
  "(fst (get_edge_embeddings K st s) =
      Inl (ValueError (''Unknown edge operator: '' @ str_operator (embedding_operator s))))
     = (embedding_operator s \<notin> {Some CONCAT, Some HADAMARD, Some AVERAGE})
   \<and> (embedding_operator s \<notin> {Some CONCAT, Some HADAMARD, Some AVERAGE})
     = (embedding_operator s = None)
   \<and> (\<exists>msg. fst (get_edge_embeddings K st s) = Inl (ValueError msg))
     = (embedding_operator s = None)
   \<and> str_operator None = ''None''"
proof -
  have none: "(embedding_operator s \<notin> {Some CONCAT, Some HADAMARD, Some AVERAGE})
     = (embedding_operator s = None)"
  proof (cases "embedding_operator s")
    case None
    then show ?thesis by simp
  next
    case (Some operator)
    then show ?thesis by (cases operator) simp_all
  qed
  have raised: "embedding_operator s = None \<Longrightarrow>
      fst (get_edge_embeddings K st s) =
        Inl (ValueError (''Unknown edge operator: '' @ str_operator (embedding_operator s)))"
    by (simp add: get_edge_embeddings_eq unknown_operator_def)
  have not_raised: "embedding_operator s \<noteq> None \<Longrightarrow>
      fst (get_edge_embeddings K st s) \<noteq> Inl (ValueError msg)" for msg
    using none by (auto simp add: get_edge_embeddings_eq comprehension_edge_vector_error)
  show ?thesis
    using none raised not_raised by auto
qed

text \<open>
  Claim C10. With the operator unset, \<^verbatim>\<open>get_edge_embeddings\<close> raises the unknown-operator
  error, and the evaluator it leaves behind is the one after \<^verbatim>\<open>get_node_embeddings\<close> and
  the read of the samples that follows it: the embedding model has been refitted on the
  train or test subgraph, and the calls to \<^verbatim>\<open>fit\<close> and \<^verbatim>\<open>get_embedding\<close> have been made,
  before the operator is looked at. The calls made are exactly those of the first read
  of the samples, \<^verbatim>\<open>fit\<close>, \<^verbatim>\<open>get_embedding\<close> and, when the bundle is false in the truth test,
  one more call of the splitter; when the bundle is true, the evaluator left behind is
  the one after \<^verbatim>\<open>get_node_embeddings\<close>.
\<close>

theorem edge_embeddings_fit_before_error:
  assumes "embedding_operator s = None"
  shows "get_edge_embeddings K st s =
           (Inl (ValueError ''Unknown edge operator: None''),
            snd (samples K (snd (get_node_embeddings K (Some st) s))))
         \<and> embedding_model (snd (get_edge_embeddings K st s)) =
             em_fit K (embedding_model s) (fitted_graph K (Some st) s)
         \<and> trace (snd (get_edge_embeddings K st s)) =
             trace (snd (samples K s)) @
               [ModelFit (fitted_graph K (Some st) s), ModelGetEmbedding] @
               (if nonempty (fst (samples K s)) then [] else [SplitterCall (graph s)])
         \<and> (nonempty (fst (samples K s)) \<longrightarrow>
              get_edge_embeddings K st s =
                (Inl (ValueError ''Unknown edge operator: None''),
                 snd (get_node_embeddings K (Some st) s)))"
  using assms
  by (simp add: get_edge_embeddings_eq unknown_operator_def samples_after_node_embeddings_fields
      samples_kept_after_node_embeddings)

theorem edge_embeddings_fit_before_error_witness:
  "embedding_operator (stub_evaluator None) = None
   \<and> fst (get_edge_embeddings stub_collaborators TRAIN (stub_evaluator None)) =
       Inl (ValueError ''Unknown edge operator: None'')
   \<and> embedding_model (stub_evaluator None) = []
   \<and> embedding_model (snd (get_edge_embeddings stub_collaborators TRAIN (stub_evaluator None))) =
       stub_embedding
   \<and> trace (snd (get_edge_embeddings stub_collaborators TRAIN (stub_evaluator None))) =
       [SplitterCall stub_graph, ModelFit (G_train stub_bundle), ModelGetEmbedding]
   \<and> nonempty (fst (samples stub_collaborators (stub_evaluator None)))
   \<and> snd (get_edge_embeddings stub_collaborators TRAIN (stub_evaluator None)) =
       snd (get_node_embeddings stub_collaborators (Some TRAIN) (stub_evaluator None))"
proof -
  have unset: "embedding_operator (stub_evaluator None) = None"
    by (simp add: stub_evaluator_def init_def)
  have first: "samples stub_collaborators (stub_evaluator None) =
       (stub_bundle,
        (stub_evaluator None)\<lparr>p_samples := Some stub_bundle, trace := [SplitterCall stub_graph]\<rparr>)"
    by (simp add: samples_def get_samples_def stub_evaluator_def stub_collaborators_def init_def)
  have true: "nonempty stub_bundle"
    by (simp add: stub_bundle_def)
  have fitted: "fitted_graph stub_collaborators (Some TRAIN) (stub_evaluator None) =
       G_train stub_bundle"
    by (simp add: fitted_graph_def first)
  have fit: "em_fit stub_collaborators m g = stub_embedding" for m g
    by (simp add: stub_collaborators_def)
  have m0: "embedding_model (stub_evaluator None) = []"
    by (simp add: stub_evaluator_def init_def)
  note inst = edge_embeddings_fit_before_error [OF unset, of stub_collaborators TRAIN]
  have a: "fst (get_edge_embeddings stub_collaborators TRAIN (stub_evaluator None)) =
       Inl (ValueError ''Unknown edge operator: None'')"
    using inst [THEN conjunct1] by simp
  have b: "embedding_model
        (snd (get_edge_embeddings stub_collaborators TRAIN (stub_evaluator None))) =
       stub_embedding"
    using inst [THEN conjunct2, THEN conjunct1] by (simp only: fit)
  have c: "trace (snd (get_edge_embeddings stub_collaborators TRAIN (stub_evaluator None))) =
       [SplitterCall stub_graph, ModelFit (G_train stub_bundle), ModelGetEmbedding]"
    using inst [THEN conjunct2, THEN conjunct2, THEN conjunct1] by (simp add: fitted first true)
  have d: "nonempty (fst (samples stub_collaborators (stub_evaluator None)))"
    by (simp add: first true)
  have e: "snd (get_edge_embeddings stub_collaborators TRAIN (stub_evaluator None)) =
       snd (get_node_embeddings stub_collaborators (Some TRAIN) (stub_evaluator None))"
    using inst [THEN conjunct2, THEN conjunct2, THEN conjunct2] d by simp
  show ?thesis
    using unset a m0 b c d e by blast
qed

section \<open>The ROC AUC score\<close>









section \<open>The contents of the edge embeddings\<close>

lemma np_index_less: "in_range xs i \<Longrightarrow> np_index xs i < length xs"
  by (auto simp add: in_range_def np_index_def)

lemma length_np_multiply: "length (np_multiply a b) = min (length a) (length b)"
  by (simp add: np_multiply_def)

lemma length_np_average: "length (np_average a b) = min (length a) (length b)"
  by (simp add: np_average_def)

lemma np_multiply_nth:
  "t < length a \<Longrightarrow> t < length b \<Longrightarrow> np_multiply a b ! t = a ! t * b ! t"
  by (simp add: np_multiply_def)

lemma np_average_nth:
  "t < length a \<Longrightarrow> t < length b \<Longrightarrow> np_average a b ! t = (a ! t + b ! t) / 2"
  by (simp add: np_average_def)

lemma comprehension_edge_vector:
  assumes "\<forall>e \<in> set ids. in_range E (fst e) \<and> in_range E (snd e)"
  shows "comprehension (edge_vector f E) ids =
           Inr (map (\<lambda>e. f (E ! np_index E (fst e)) (E ! np_index E (snd e))) ids)"
  using assms by (intro comprehension_map) (simp add: edge_vector_in_range)

text \<open>
  Claim C4. Let \<open>E\<close> be the node embeddings that \<^verbatim>\<open>get_edge_embeddings\<close> computes, with every
  row of length \<open>d\<close>, and \<open>ids\<close> the edge ids of the sample type, every node id of which
  is an index of \<open>E\<close> in range. Then the call returns a list \<open>vs\<close> as long as \<open>ids\<close>, and for
  every position \<open>k\<close>, with \<open>a\<close> and \<open>b\<close> the rows of \<open>E\<close> for the first and the second node of
  \<open>ids ! k\<close>: under \<^verbatim>\<open>CONCAT\<close> the vector \<open>vs ! k\<close> is \<open>a\<close> followed by \<open>b\<close>, of length \<open>2 * d\<close>;
  under \<^verbatim>\<open>HADAMARD\<close> it has length \<open>d\<close> and its entries are the products of the entries of
  \<open>a\<close> and \<open>b\<close>; under \<^verbatim>\<open>AVERAGE\<close> it has length \<open>d\<close> and its entries are their means.
\<close>

theorem edge_embeddings_contents:
  assumes operator: "embedding_operator s = Some operator"
    and E: "E = fst (get_node_embeddings K (Some st) s)"
    and ids: "ids = sample_edge_ids st (fst (samples K s))"
    and dim: "\<forall>row \<in> set E. length row = d"
    and rng: "\<forall>e \<in> set ids. in_range E (fst e) \<and> in_range E (snd e)"
  shows "\<exists>vs. fst (get_edge_embeddings K st s) = Inr vs
           \<and> length vs = length ids
           \<and> (\<forall>k < length ids.
                let a = E ! np_index E (fst (ids ! k)); b = E ! np_index E (snd (ids ! k))
                in length a = d \<and> length b = d
                   \<and> (operator = CONCAT \<longrightarrow> vs ! k = a @ b \<and> length (vs ! k) = 2 * d)
                   \<and> (operator = HADAMARD \<longrightarrow>
                        length (vs ! k) = d \<and> (\<forall>t < d. vs ! k ! t = a ! t * b ! t))
                   \<and> (operator = AVERAGE \<longrightarrow>
                        length (vs ! k) = d \<and> (\<forall>t < d. vs ! k ! t = (a ! t + b ! t) / 2)))"
proof -
  define f where "f = (case operator of CONCAT \<Rightarrow> np_concatenate
                       | HADAMARD \<Rightarrow> np_multiply | AVERAGE \<Rightarrow> np_average)"
  define g where "g = (\<lambda>e. f (E ! np_index E (fst e)) (E ! np_index E (snd e)))"
  have "fst (get_edge_embeddings K st s) = comprehension (edge_vector f E) ids"
    using operator by (cases operator) (simp_all add: get_edge_embeddings_eq f_def E ids)
  then have res: "fst (get_edge_embeddings K st s) = Inr (map g ids)"
    using rng by (simp add: comprehension_edge_vector g_def)
  have len: "length (E ! np_index E (fst (ids ! k))) = d \<and>
             length (E ! np_index E (snd (ids ! k))) = d" if "k < length ids" for k
  proof -
    have "ids ! k \<in> set ids"
      using that by simp
    then have "in_range E (fst (ids ! k))" and "in_range E (snd (ids ! k))"
      using rng by auto
    then have "E ! np_index E (fst (ids ! k)) \<in> set E"
      and "E ! np_index E (snd (ids ! k)) \<in> set E"
      by (simp_all add: np_index_less)
    then show ?thesis
      using dim by simp
  qed
  have "\<forall>k < length ids.
          let a = E ! np_index E (fst (ids ! k)); b = E ! np_index E (snd (ids ! k))
          in length a = d \<and> length b = d
             \<and> (operator = CONCAT \<longrightarrow> map g ids ! k = a @ b \<and> length (map g ids ! k) = 2 * d)
             \<and> (operator = HADAMARD \<longrightarrow>
                  length (map g ids ! k) = d \<and> (\<forall>t < d. map g ids ! k ! t = a ! t * b ! t))
             \<and> (operator = AVERAGE \<longrightarrow>
                  length (map g ids ! k) = d
                  \<and> (\<forall>t < d. map g ids ! k ! t = (a ! t + b ! t) / 2))"
    using len
    by (simp add: Let_def g_def f_def np_concatenate_def length_np_multiply length_np_average
        np_multiply_nth np_average_nth)
  with res show ?thesis
    by (intro exI [of _ "map g ids"]) simp
qed

theorem edge_embeddings_contents_witness:
  "(\<exists>vs. fst (get_edge_embeddings stub_collaborators TRAIN (stub_evaluator (Some CONCAT))) = Inr vs
      \<and> length vs = 4
      \<and> vs ! 2 = [1, 0, 1, 0, 0, 1, 0, 1])
   \<and> (\<exists>vs. fst (get_edge_embeddings stub_collaborators TRAIN (stub_evaluator (Some HADAMARD))) =
             Inr vs
      \<and> length vs = 4
      \<and> length (vs ! 1) = 4
      \<and> vs ! 1 ! 1 = 1)"
proof -
  let ?ids = "[(0, 1), (2, 3), (0, 2), (1, 3)] :: (int \<times> int) list"
  have operator: "embedding_operator (stub_evaluator (Some operator)) = Some operator"
    for operator
    by (simp add: stub_evaluator_def init_def)
  have E: "stub_embedding =
        fst (get_node_embeddings stub_collaborators (Some TRAIN) (stub_evaluator operator))"
    for operator
    by (simp add: get_node_embeddings_fields) (simp add: stub_collaborators_def)
  have first: "fst (samples stub_collaborators (stub_evaluator operator)) = stub_bundle"
    for operator
    by (simp add: samples_def get_samples_def stub_evaluator_def stub_collaborators_def init_def)
  have ids: "?ids =
        sample_edge_ids TRAIN (fst (samples stub_collaborators (stub_evaluator operator)))"
    for operator
    by (simp add: first sample_edge_ids_def stub_bundle_def)
  have dim: "\<forall>row \<in> set stub_embedding. length row = 4"
    by (simp add: stub_embedding_def)
  have rng: "\<forall>e \<in> set ?ids. in_range stub_embedding (fst e) \<and> in_range stub_embedding (snd e)"
    by (simp add: in_range_def stub_embedding_def)
  have one: "1 < length ?ids" and two: "2 < length ?ids"
    by simp_all
  from edge_embeddings_contents [OF operator E ids dim rng, of CONCAT] obtain vs where
    r: "fst (get_edge_embeddings stub_collaborators TRAIN (stub_evaluator (Some CONCAT))) = Inr vs"
    and l: "length vs = length ?ids"
    and c: "\<And>k. k < length ?ids \<Longrightarrow>
             vs ! k = stub_embedding ! np_index stub_embedding (fst (?ids ! k)) @
                      stub_embedding ! np_index stub_embedding (snd (?ids ! k))"
    unfolding Let_def by (elim exE conjE) simp
  from c [OF two] have "vs ! 2 = [1, 0, 1, 0, 0, 1, 0, 1]"
    by (simp add: np_index_def stub_embedding_def)
  with r l have concat:
    "\<exists>vs. fst (get_edge_embeddings stub_collaborators TRAIN (stub_evaluator (Some CONCAT))) = Inr vs
       \<and> length vs = 4 \<and> vs ! 2 = [1, 0, 1, 0, 0, 1, 0, 1]"
    by (intro exI [of _ vs]) simp
  from edge_embeddings_contents [OF operator E ids dim rng, of HADAMARD] obtain ws where
    r': "fst (get_edge_embeddings stub_collaborators TRAIN (stub_evaluator (Some HADAMARD))) =
           Inr ws"
    and l': "length ws = length ?ids"
    and c': "\<And>k. k < length ?ids \<Longrightarrow>
             length (ws ! k) = 4 \<and>
             (\<forall>t < 4. ws ! k ! t =
                stub_embedding ! np_index stub_embedding (fst (?ids ! k)) ! t *
                stub_embedding ! np_index stub_embedding (snd (?ids ! k)) ! t)"
    unfolding Let_def by (elim exE conjE) simp
  from c' [OF one] have "length (ws ! 1) = 4"
    and "ws ! 1 ! 1 =
           stub_embedding ! np_index stub_embedding 2 ! 1 *
           stub_embedding ! np_index stub_embedding 3 ! 1"
    by simp_all
  then have "length (ws ! 1) = 4 \<and> ws ! 1 ! 1 = 1"
    by (simp add: np_index_def stub_embedding_def)
  with r' l' have hadamard:
    "\<exists>vs. fst (get_edge_embeddings stub_collaborators TRAIN (stub_evaluator (Some HADAMARD))) =
             Inr vs
       \<and> length vs = 4 \<and> length (vs ! 1) = 4 \<and> vs ! 1 ! 1 = 1"
    by (intro exI [of _ ws]) simp
  from concat hadamard show ?thesis
    by blast
qed

section \<open>The mask\<close>

lemma length_pairwise: "length (pairwise f E) = length E"
  by (simp add: pairwise_def)

lemma pairwise_row:
  "i < length E \<Longrightarrow> pairwise f E ! i = map (\<lambda>y. f (E ! i) y) E"
  by (simp add: pairwise_def)


lemma similarity_matrix_shape:
  assumes "similarity_matrix m E = Inr S"
  shows "length S = length E" and "i < length E \<Longrightarrow> length (S ! i) = length E"
  using assms
  by (auto simp add: similarity_matrix_def cosine_similarity_def length_pairwise pairwise_row
      split: if_splits)

lemma length_tril: "length (tril S k) = length S"
  by (simp add: tril_def)

lemma tril_row_nth:
  "i < length S \<Longrightarrow> tril S k ! i = tril_row k i (S ! i)"
  by (simp add: tril_def)




section \<open>The top-100 ranking\<close>

lemma length_ravel_uniform:
  "\<forall>row \<in> set m. length row = c \<Longrightarrow> length (ravel m) = length m * c"
  by (induction m) (simp_all add: ravel_def)

lemma tril_rows:
  "\<forall>i < length S. length (S ! i) = c \<Longrightarrow> \<forall>row \<in> set (tril S k). length row = c"
  by (auto simp add: tril_def tril_row_def)

lemma similarity_matrix_returns: "\<exists>S. similarity_matrix m E = Inr S"
  by (cases m) (simp_all add: similarity_matrix_def)

lemma length_ravel_masked:
  assumes "similarity_matrix m E = Inr S"
  shows "length (ravel (tril S k)) = length E * length E"
proof -
  have "\<forall>i < length S. length (S ! i) = length E"
    using assms by (simp add: similarity_matrix_shape)
  then have "\<forall>row \<in> set (tril S k). length row = length E"
    by (rule tril_rows)
  then have "length (ravel (tril S k)) = length (tril S k) * length E"
    by (rule length_ravel_uniform)
  then show ?thesis
    using assms by (simp add: length_tril similarity_matrix_shape)
qed

lemma shape_nth: "m \<noteq> [] \<Longrightarrow> shape m = (length m, length (m ! 0))"
  by (cases m) (simp_all add: shape_def)

lemma shape_masked:
  assumes "similarity_matrix m E = Inr S" and "0 < length E"
  shows "shape (tril S k) = (length E, length E)"
proof -
  have S: "length S = length E" and row: "length (S ! 0) = length E"
    using assms by (simp_all add: similarity_matrix_shape)
  then have "tril S k \<noteq> []"
    using assms(2) by (auto simp add: tril_def)
  then have "shape (tril S k) = (length (tril S k), length (tril S k ! 0))"
    by (rule shape_nth)
  then show ?thesis
    using S row assms(2) by (simp add: length_tril tril_row_nth tril_row_def)
qed




lemma ranked_pairs_length: "ranked_pairs m E = Inr ps \<Longrightarrow> length ps = 100"
  by (auto simp add: ranked_pairs_def split: sum.splits dest: top100_indices_length)

lemma top100_indices_all:
  assumes "length (ravel S) = 100"
  shows "\<exists>ps. top100_indices S = Inr ps \<and> mset ps = mset (unravel_index [0..<100] (shape S))"
proof -
  define a where "a = ravel S"
  define q where "q = argsort (take_indices a (argsort a))"
  have len: "length a = 100"
    using assms by (simp add: a_def)
  have p: "argpartition a (- 100) = Inr (argsort a)"
    using len by (simp add: argpartition_100)
  have ind: "last_k 100 (argsort a) = argsort a"
    using len by (simp add: last_k_def length_argsort)
  have "mset q = mset [0..<length (take_indices a (argsort a))]"
    unfolding q_def by (rule mset_argsort)
  then have "mset q = mset [0..<length (argsort a)]"
    by (simp only: length_take_indices)
  then have "mset (take_indices (argsort a) q) = mset (argsort a)"
    by (rule mset_take_indices)
  then have "mset (rev (take_indices (argsort a) q)) = mset [0..<100]"
    by (simp only: mset_rev mset_argsort len)
  then have "mset (unravel_index (rev (take_indices (argsort a) q)) (shape S)) =
      mset (unravel_index [0..<100] (shape S))"
    by (simp only: unravel_index_def mset_map)
  moreover have "top100_indices S =
      Inr (unravel_index (rev (take_indices (argsort a) q)) (shape S))"
    using p ind by (simp add: top100_indices_def Let_def a_def q_def)
  ultimately show ?thesis
    by simp
qed

lemma unravel_ten: "unravel_index [0..<100] (10, 10) = List.product [0..<10] [0..<10]"
  by code_simp


lemma above_ten: "length (filter (\<lambda>(i, j). i \<le> j) (List.product [0..<10] [0..<10])) = 55"
  by code_simp

lemma stub_edges_ten:
  "length (filter (\<lambda>idx. has_edge stub_graph (int (fst idx)) (int (snd idx)))
     (List.product [0..<10] [0..<10])) = 8"
  by code_simp

lemma mset_eq_length_filter:
  assumes "mset xs = mset ys"
  shows "length (filter P xs) = length (filter P ys)"
proof -
  have "mset (filter P xs) = mset (filter P ys)"
    using assms by (simp only: mset_filter)
  then show ?thesis
    by (rule mset_eq_length)
qed

lemma ranked_pairs_ten:
  assumes "length E = 10"
  shows "\<exists>ps. ranked_pairs m E = Inr ps \<and> mset ps = mset (List.product [0..<10] [0..<10])"
proof -
  obtain S where S: "similarity_matrix m E = Inr S"
    using similarity_matrix_returns by blast
  have "length (ravel (tril S (- 1))) = 100"
    using S assms by (simp add: length_ravel_masked)
  then obtain ps where ps: "top100_indices (tril S (- 1)) = Inr ps"
    and "mset ps = mset (unravel_index [0..<100] (shape (tril S (- 1))))"
    using top100_indices_all by blast
  moreover have "shape (tril S (- 1)) = (10, 10)"
    using S assms by (simp add: shape_masked)
  ultimately have "mset ps = mset (List.product [0..<10] [0..<10])"
    by (simp only: unravel_ten)
  with ps S show ?thesis
    by (simp add: ranked_pairs_def)
qed

lemma count_tp_filter:
  "count_tp g ps tp =
     tp + length (filter (\<lambda>idx. has_edge g (int (fst idx)) (int (snd idx))) ps)"
  by (induction ps arbitrary: tp) simp_all

lemma get_precision_at_100_eq:
  "get_precision_at_100 K m s =
     (case ranked_pairs m (fst (get_node_embeddings K None s)) of
        Inl e \<Rightarrow> Inl e
      | Inr ps \<Rightarrow>
          Inr (real (length (filter (\<lambda>idx. has_edge (graph s) (int (fst idx)) (int (snd idx)))
                               ps)) / 100),
      snd (get_node_embeddings K None s))"
  by (simp add: get_precision_at_100_def case_prod_unfold count_tp_filter
      get_node_embeddings_fields split: sum.splits)

lemma stub_node_embeddings:
  "fst (get_node_embeddings stub_collaborators None (stub_evaluator None)) = stub_embedding"
  "graph (stub_evaluator None) = stub_graph"
  "length stub_embedding = 10"
  by (simp_all add: get_node_embeddings_fields stub_collaborators_def stub_evaluator_def
      init_def stub_embedding_def)

lemma stub_precision:
  "get_precision_at_100 stub_collaborators HAMMING (stub_evaluator None) =
     (Inr (8 / 100), snd (get_node_embeddings stub_collaborators None (stub_evaluator None)))"
proof -
  obtain ps where ps: "ranked_pairs HAMMING stub_embedding = Inr ps"
    and perm: "mset ps = mset (List.product [0..<10] [0..<10])"
    using ranked_pairs_ten [OF stub_node_embeddings(3)] by blast
  have "length (filter (\<lambda>idx. has_edge stub_graph (int (fst idx)) (int (snd idx))) ps) = 8"
    using mset_eq_length_filter [OF perm] by (simp only: stub_edges_ten)
  then show ?thesis
    by (simp add: get_precision_at_100_eq stub_node_embeddings ps)
qed

text \<open>
  Claim C8. Whenever \<^verbatim>\<open>get_precision_at_100\<close> returns a value, the ranking of the
  embeddings of the full graph has produced a list of exactly 100 pairs, and the value is
  the number of those pairs that are joined by an edge of the evaluator's graph, divided
  by 100; so it is \<open>k / 100\<close> for a natural number \<open>k\<close> from 0 to 100, and lies between 0
  and 1.
\<close>

theorem precision_at_100_value:
  assumes "get_precision_at_100 K m s = (Inr v, s')"
  shows "\<exists>ps. ranked_pairs m (fst (get_node_embeddings K None s)) = Inr ps
           \<and> length ps = 100
           \<and> v = real (length (filter (\<lambda>idx. has_edge (graph s) (int (fst idx)) (int (snd idx)))
                                  ps)) / 100
           \<and> v \<in> (\<lambda>k. real k / 100) ` {0..100::nat}
           \<and> 0 \<le> v \<and> v \<le> 1"
proof -
  let ?P = "\<lambda>idx. has_edge (graph s) (int (fst idx)) (int (snd idx))"
  from assms obtain ps
    where ps: "ranked_pairs m (fst (get_node_embeddings K None s)) = Inr ps"
      and v: "v = real (length (filter ?P ps)) / 100"
    by (auto simp add: get_precision_at_100_eq split: sum.splits)
  have len: "length ps = 100"
    using ps by (rule ranked_pairs_length)
  have "length (filter ?P ps) \<le> length ps"
    by (rule length_filter_le)
  then have le: "length (filter ?P ps) \<le> 100"
    using len by simp
  then have "length (filter ?P ps) \<in> {0..100}"
    by simp
  then have "v \<in> (\<lambda>k. real k / 100) ` {0..100::nat}"
    unfolding v by (rule imageI)
  moreover have "0 \<le> v" and "v \<le> 1"
    using le by (simp_all add: v)
  ultimately show ?thesis
    using ps len v by blast
qed

theorem precision_at_100_value_witness:
  "get_precision_at_100 stub_collaborators HAMMING (stub_evaluator None) =
     (Inr (8 / 100), snd (get_node_embeddings stub_collaborators None (stub_evaluator None)))
   \<and> (\<exists>ps. ranked_pairs HAMMING stub_embedding = Inr ps
         \<and> length ps = 100
         \<and> (8 / 100 :: real) =
             real (length (filter (\<lambda>idx. has_edge stub_graph (int (fst idx)) (int (snd idx)))
                             ps)) / 100)
   \<and> (8 / 100 :: real) \<in> (\<lambda>k. real k / 100) ` {0..100::nat}"
  using precision_at_100_value [OF stub_precision] stub_precision
  by (simp only: stub_node_embeddings) blast




text \<open>
  Claim C1. The mask sets the entries on and above the diagonal to zero but leaves them
  in the matrix that is ranked. For the stub graph of ten nodes and its embedding matrix
  of ten rows under the \<^verbatim>\<open>HAMMING\<close> measure the call returns, and its 100 ranked pairs are all
  the positions of the matrix: among them the self-pair \<open>(0, 0)\<close> and both \<open>(0, 1)\<close> and
  \<open>(1, 0)\<close>; 55 of the ranked pairs are not strictly below the diagonal, and each of the
  four edges of the graph is counted twice, which gives the precision \<open>8 / 100\<close>.
\<close>

theorem ranked_pairs_not_below_diagonal:
  "\<exists>ps. ranked_pairs HAMMING stub_embedding = Inr ps
     \<and> (0, 0) \<in> set ps \<and> (0, 1) \<in> set ps \<and> (1, 0) \<in> set ps
     \<and> length (filter (\<lambda>(i, j). \<not> j < i) ps) = 55
     \<and> length (edges stub_graph) = 4
     \<and> get_precision_at_100 stub_collaborators HAMMING (stub_evaluator None) =
         (Inr (8 / 100),
          snd (get_node_embeddings stub_collaborators None (stub_evaluator None)))"
proof -
  obtain ps where ps: "ranked_pairs HAMMING stub_embedding = Inr ps"
    and perm: "mset ps = mset (List.product [0..<10] [0..<10])"
    using ranked_pairs_ten [OF stub_node_embeddings(3)] by blast
  have "set ps = set (List.product [0..<10] [0..<10])"
    using perm by (rule mset_eq_setD)
  then have "(0, 0) \<in> set ps" and "(0, 1) \<in> set ps" and "(1, 0) \<in> set ps"
    by simp_all
  moreover have "(\<lambda>(i, j). \<not> j < i) = (\<lambda>(i::nat, j::nat). i \<le> j)"
    by (simp add: fun_eq_iff not_less)
  then have "length (filter (\<lambda>(i, j). \<not> j < i) ps) = 55"
    using mset_eq_length_filter [OF perm, of "\<lambda>(i, j). i \<le> j"] by (simp only: above_ten)
  moreover have "length (edges stub_graph) = 4"
    by (simp add: stub_graph_def)
  ultimately show ?thesis
    using ps stub_precision by blast
qed

end
